theory Spec2Isabelle
  imports Main
begin

section \<open>Runtime values\<close>

text \<open>
  The constructor of \<open>ConsoleLocaleTimestamp\<close> checks its arguments at run time, so
  the arguments are modelled as JavaScript values rather than by their declared
  TypeScript types. An omitted argument is \<open>JUndefined\<close>.

  An array is the list of its slots: \<open>Some v\<close> is an element, \<open>None\<close> is a hole, as in
  \<open>new Array(1)\<close> or in the literal \<open>['a', ,]\<close>. A Number is represented by its
  string conversion (\<open>JNum ''5''\<close>, \<open>JNum ''1e+21''\<close>, \<open>JNum ''NaN''\<close>), which
  determines it up to the sign of zero. An object is the list of its key/value pairs.
\<close>

datatype jsval =
    JUndefined
  | JNull
  | JBool bool
  | JNum string
  | JStr string
  | JArr "jsval option list"
  | JObj "(string \<times> jsval) list"

text \<open>\<open>Object.prototype.toString.call(v)\<close>, the test used by every check of the constructor.\<close>

fun toStringTag :: "jsval \<Rightarrow> string" where
  "toStringTag JUndefined = ''[object Undefined]''"
| "toStringTag JNull = ''[object Null]''"
| "toStringTag (JBool b) = ''[object Boolean]''"
| "toStringTag (JNum n) = ''[object Number]''"
| "toStringTag (JStr s) = ''[object String]''"
| "toStringTag (JArr xs) = ''[object Array]''"
| "toStringTag (JObj kvs) = ''[object Object]''"

text \<open>
  Truthiness, as tested by \<open>!condition\<close> in \<open>assert\<close>. The falsy Numbers are the two
  zeros, both converted to \<open>0\<close>, and \<open>NaN\<close>.
\<close>

fun truthy :: "jsval \<Rightarrow> bool" where
  "truthy JUndefined = False"
| "truthy JNull = False"
| "truthy (JBool b) = b"
| "truthy (JNum n) = (n \<noteq> ''0'' \<and> n \<noteq> ''NaN'')"
| "truthy (JStr s) = (s \<noteq> [])"
| "truthy (JArr xs) = True"
| "truthy (JObj kvs) = True"

text \<open>Reading a slot: a hole reads as \<open>undefined\<close>.\<close>

fun js_elem :: "jsval option \<Rightarrow> jsval" where
  "js_elem None = JUndefined"
| "js_elem (Some v) = v"

text \<open>Reading \<open>xs[i]\<close>: an index past the end yields \<open>undefined\<close>.\<close>

definition js_index :: "jsval option list \<Rightarrow> nat \<Rightarrow> jsval" where
  "js_index xs i = (if i < length xs then js_elem (xs ! i) else JUndefined)"

text \<open>\<open>xs.every(p)\<close>: the callback is called for the elements only, never for a hole.\<close>

fun js_every :: "(jsval \<Rightarrow> bool) \<Rightarrow> jsval option list \<Rightarrow> bool" where
  "js_every p [] = True"
| "js_every p (None # xs) = js_every p xs"
| "js_every p (Some v # xs) = (p v \<and> js_every p xs)"

fun join_comma :: "string list \<Rightarrow> string" where
  "join_comma [] = []"
| "join_comma [s] = s"
| "join_comma (s # t # ss) = s @ '','' @ join_comma (t # ss)"

text \<open>
  The string conversion applied to each \<open>${...}\<close> of a template literal. A string is
  itself; an array is its slots joined by commas, with holes and the elements \<open>null\<close>
  and \<open>undefined\<close> rendered empty.
\<close>

fun ToString :: "jsval \<Rightarrow> string" where
  "ToString JUndefined = ''undefined''"
| "ToString JNull = ''null''"
| "ToString (JBool b) = (if b then ''true'' else ''false'')"
| "ToString (JNum n) = n"
| "ToString (JStr s) = s"
| "ToString (JArr xs) =
     join_comma (map (\<lambda>e. case e of None \<Rightarrow> []
                          | Some v \<Rightarrow> if v = JUndefined \<or> v = JNull then [] else ToString v) xs)"
| "ToString (JObj kvs) = ''[object Object]''"

section \<open>Errors, effects and sequencing\<close>

text \<open>
  \<open>TypeError\<close>, \<open>RangeError\<close> and \<open>Error\<close> are the three classes the source throws
  itself. \<open>HostException\<close> is an exception raised by the host's
  \<open>Date.prototype.toLocaleTimeString\<close>, which the source does not catch.
\<close>

datatype js_error =
    TypeError string
  | RangeError string
  | Error string
  | HostException string

text \<open>
  Everything a method does is recorded in one trace, in order: a write to
  \<open>process.stdout\<close>, a write to \<open>process.stderr\<close>, or a call of a method of the
  global \<open>console\<close> with its arguments.
\<close>

datatype event =
    Stdout string
  | Stderr string
  | Console string "jsval list"

text \<open>
  A statement runs on a state and either completes or throws; the state reached at a
  throw is kept, as assignments made before a \<open>throw\<close> are not undone.
\<close>

type_synonym 's stmt = "'s \<Rightarrow> (js_error + unit) \<times> 's"

definition skip :: "'s stmt" where
  "skip s = (Inr (), s)"

definition throw :: "js_error \<Rightarrow> 's stmt" where
  "throw e s = (Inl e, s)"

definition seq :: "'s stmt \<Rightarrow> 's stmt \<Rightarrow> 's stmt" where
  "seq p q s = (case p s of (Inl e, s') \<Rightarrow> (Inl e, s') | (Inr u, s') \<Rightarrow> q s')"

section \<open>The class \<open>ConsoleLocaleTimestamp\<close>\<close>

subsection \<open>Private fields\<close>

record fields =
  locales :: jsval
  options :: jsval
  openQuote :: jsval
  closeQuote :: jsval
  separator :: jsval

text \<open>The field initialisers: no locale, no options, empty quotes, one space.\<close>

definition initial_fields :: fields where
  "initial_fields =
     \<lparr>locales = JUndefined, options = JUndefined,
      openQuote = JStr '''', closeQuote = JStr '''', separator = JStr '' ''\<rparr>"

definition LOG_LEVEL_log :: string where "LOG_LEVEL_log = ''log''"
definition LOG_LEVEL_info :: string where "LOG_LEVEL_info = ''info''"
definition LOG_LEVEL_warn :: string where "LOG_LEVEL_warn = ''warn''"
definition LOG_LEVEL_error :: string where "LOG_LEVEL_error = ''error''"

subsection \<open>The constructor\<close>

text \<open>The four blocks of the constructor body, in source order.\<close>

definition ctor_locales :: "jsval \<Rightarrow> fields stmt" where
  "ctor_locales l =
     (if l \<noteq> JUndefined then
        (if toStringTag l \<noteq> ''[object String]''
         then throw (TypeError ''The argument `locales` must be an String.'')
         else (\<lambda>this. (Inr (), this\<lparr>locales := l\<rparr>)))
      else skip)"

definition ctor_options :: "jsval \<Rightarrow> fields stmt" where
  "ctor_options opts =
     (if opts \<noteq> JUndefined then
        (if toStringTag opts \<noteq> ''[object Object]''
         then throw (TypeError ''The argument `options` must be an Object.'')
         else (\<lambda>this. (Inr (), this\<lparr>options := opts\<rparr>)))
      else skip)"

text \<open>
  Only an array has the tag \<open>[object Array]\<close>, so the branches after the first
  test read the slots of the array. The test of the contents is \<open>quote.every(...)\<close>,
  which passes over holes.
\<close>

definition ctor_quote :: "jsval \<Rightarrow> fields stmt" where
  "ctor_quote q =
     (if q \<noteq> JUndefined then
        (case q of
           JArr xs \<Rightarrow>
             (if length xs < 1 \<or> length xs > 2
              then throw (RangeError ''The argument `quote` must be an Array of length 1 or 2.'')
              else if \<not> js_every (\<lambda>val. toStringTag val = ''[object String]'') xs
              then throw (TypeError
                     ''The contents of the Array of arguments `quote` must be a String.'')
              else (\<lambda>this. (Inr (),
                     this\<lparr>openQuote := js_index xs 0,
                          closeQuote := (if length xs = 1 then js_index xs 0
                                         else js_index xs 1)\<rparr>)))
         | _ \<Rightarrow> throw (TypeError ''The argument `quote` must be an Array.''))
      else skip)"

definition ctor_separator :: "jsval \<Rightarrow> fields stmt" where
  "ctor_separator sep =
     (if sep \<noteq> JUndefined then
        (if toStringTag sep \<noteq> ''[object String]''
         then throw (TypeError ''The argument `separator` must be an String.'')
         else (\<lambda>this. (Inr (), this\<lparr>separator := sep\<rparr>)))
      else skip)"

definition "constructor" :: "jsval \<Rightarrow> jsval \<Rightarrow> jsval \<Rightarrow> jsval \<Rightarrow> fields stmt" where
  "constructor l opts q sep =
     seq (ctor_locales l) (seq (ctor_options opts) (seq (ctor_quote q) (ctor_separator sep)))"

text \<open>
  The expression \<open>new ConsoleLocaleTimestamp(l, opts, q, sep)\<close>, evaluated while the
  trace is \<open>tr\<close>: the constructor runs on a fresh object; if it throws, the object
  is dropped and the caller receives the error.
\<close>

definition new_ConsoleLocaleTimestamp ::
  "jsval \<Rightarrow> jsval \<Rightarrow> jsval \<Rightarrow> jsval \<Rightarrow> event list \<Rightarrow> (js_error + fields) \<times> event list" where
  "new_ConsoleLocaleTimestamp l opts q sep tr =
     (case constructor l opts q sep initial_fields of
        (Inl e, this) \<Rightarrow> (Inl e, tr)
      | (Inr u, this) \<Rightarrow> (Inr this, tr))"

subsection \<open>Printing the timestamp\<close>

text \<open>
  The host's \<open>new Date().toLocaleTimeString(locales, options)\<close> at the moment of the
  call: it returns the formatted time, or raises (\<open>Inl\<close> carries the message), for
  instance on a locale string that is not a language tag.
\<close>

type_synonym host = "jsval \<Rightarrow> jsval \<Rightarrow> string + string"

text \<open>
  \<open>_printTimestamp(logLevel, separator = this.#separator)\<close>. An omitted second
  argument is \<open>JUndefined\<close> and takes the default. The level is the string received at
  run time, so the \<open>default\<close> branch of the \<open>switch\<close> is part of the model.
\<close>

definition printTimestamp :: "host \<Rightarrow> fields \<Rightarrow> string \<Rightarrow> jsval \<Rightarrow> event list stmt" where
  "printTimestamp toLocaleTimeString this logLevel sep =
     (let sep' = (if sep = JUndefined then separator this else sep) in
      case toLocaleTimeString (locales this) (options this) of
        Inl msg \<Rightarrow> throw (HostException msg)
      | Inr time \<Rightarrow>
          (let timestamp =
                 ToString (openQuote this) @ time @ ToString (closeQuote this) @ ToString sep'
           in if logLevel = LOG_LEVEL_log \<or> logLevel = LOG_LEVEL_info \<or> logLevel = LOG_LEVEL_warn
              then (\<lambda>tr. (Inr (), tr @ [Stdout timestamp]))
              else if logLevel = LOG_LEVEL_error
              then (\<lambda>tr. (Inr (), tr @ [Stderr timestamp]))
              else throw (Error (''An undefined `logLevel` was specified as an argument. '' @
                     ''`logLevel` must be one of the groups defined below. '' @
                     ''<https://console.spec.whatwg.org/#loglevel-severity>''))))"

definition printlnTimestamp :: "host \<Rightarrow> fields \<Rightarrow> string \<Rightarrow> event list stmt" where
  "printlnTimestamp toLocaleTimeString this logLevel =
     printTimestamp toLocaleTimeString this logLevel (JStr [CHR 0x0A])"

subsection \<open>The public methods\<close>

text \<open>A call \<open>console.name(args)\<close> of the underlying console.\<close>

definition console :: "string \<Rightarrow> jsval list \<Rightarrow> event list stmt" where
  "console name args tr = (Inr (), tr @ [Console name args])"

text \<open>
  Each method takes the host formatter and the instance; a rest parameter is a list,
  an optional parameter that was omitted is \<open>JUndefined\<close>.
\<close>

definition assert :: "host \<Rightarrow> fields \<Rightarrow> jsval \<Rightarrow> jsval list \<Rightarrow> event list stmt" where
  "assert H this condition data =
     seq (if \<not> truthy condition then printTimestamp H this LOG_LEVEL_error JUndefined else skip)
         (console ''assert'' (condition # data))"

definition clear :: "host \<Rightarrow> fields \<Rightarrow> event list stmt" where
  "clear H this = console ''clear'' []"

definition debug :: "host \<Rightarrow> fields \<Rightarrow> jsval list \<Rightarrow> event list stmt" where
  "debug H this data =
     seq (printTimestamp H this LOG_LEVEL_log JUndefined) (console ''debug'' data)"

definition error :: "host \<Rightarrow> fields \<Rightarrow> jsval list \<Rightarrow> event list stmt" where
  "error H this data =
     seq (printTimestamp H this LOG_LEVEL_error JUndefined) (console ''error'' data)"

definition info :: "host \<Rightarrow> fields \<Rightarrow> jsval list \<Rightarrow> event list stmt" where
  "info H this data =
     seq (printTimestamp H this LOG_LEVEL_info JUndefined) (console ''info'' data)"

definition log :: "host \<Rightarrow> fields \<Rightarrow> jsval list \<Rightarrow> event list stmt" where
  "log H this data =
     seq (printTimestamp H this LOG_LEVEL_log JUndefined) (console ''log'' data)"

definition table :: "host \<Rightarrow> fields \<Rightarrow> jsval \<Rightarrow> jsval \<Rightarrow> event list stmt" where
  "table H this tabularData properties =
     seq (printlnTimestamp H this LOG_LEVEL_log) (console ''table'' [tabularData, properties])"

definition trace :: "host \<Rightarrow> fields \<Rightarrow> jsval list \<Rightarrow> event list stmt" where
  "trace H this data =
     seq (printTimestamp H this LOG_LEVEL_log JUndefined) (console ''trace'' data)"

definition warn :: "host \<Rightarrow> fields \<Rightarrow> jsval list \<Rightarrow> event list stmt" where
  "warn H this data =
     seq (printTimestamp H this LOG_LEVEL_warn JUndefined) (console ''warn'' data)"

definition dir :: "host \<Rightarrow> fields \<Rightarrow> jsval \<Rightarrow> jsval \<Rightarrow> event list stmt" where
  "dir H this item opts =
     seq (printTimestamp H this LOG_LEVEL_log JUndefined) (console ''dir'' [item, opts])"

definition dirxml :: "host \<Rightarrow> fields \<Rightarrow> jsval list \<Rightarrow> event list stmt" where
  "dirxml H this data =
     seq (printTimestamp H this LOG_LEVEL_log JUndefined) (console ''dirxml'' data)"

definition count :: "host \<Rightarrow> fields \<Rightarrow> jsval \<Rightarrow> event list stmt" where
  "count H this label =
     seq (printTimestamp H this LOG_LEVEL_info JUndefined) (console ''count'' [label])"

definition countReset :: "host \<Rightarrow> fields \<Rightarrow> jsval \<Rightarrow> event list stmt" where
  "countReset H this label = console ''countReset'' [label]"

definition group :: "host \<Rightarrow> fields \<Rightarrow> jsval list \<Rightarrow> event list stmt" where
  "group H this label =
     seq (if length label > 0 then printTimestamp H this LOG_LEVEL_log JUndefined else skip)
         (console ''group'' label)"

definition groupCollapsed :: "host \<Rightarrow> fields \<Rightarrow> jsval list \<Rightarrow> event list stmt" where
  "groupCollapsed H this label =
     seq (if length label > 0 then printTimestamp H this LOG_LEVEL_log JUndefined else skip)
         (console ''groupCollapsed'' label)"

definition groupEnd :: "host \<Rightarrow> fields \<Rightarrow> event list stmt" where
  "groupEnd H this = console ''groupEnd'' []"

definition time :: "host \<Rightarrow> fields \<Rightarrow> jsval \<Rightarrow> event list stmt" where
  "time H this label = console ''time'' [label]"

definition timeLog :: "host \<Rightarrow> fields \<Rightarrow> jsval \<Rightarrow> jsval list \<Rightarrow> event list stmt" where
  "timeLog H this label data =
     seq (printTimestamp H this LOG_LEVEL_log JUndefined) (console ''timeLog'' (label # data))"

definition timeEnd :: "host \<Rightarrow> fields \<Rightarrow> jsval \<Rightarrow> event list stmt" where
  "timeEnd H this label =
     seq (printTimestamp H this LOG_LEVEL_info JUndefined) (console ''timeEnd'' [label])"

subsection \<open>The public surface\<close>

text \<open>
  A call of one of the nineteen public methods, with its arguments. The private
  methods \<open>_printTimestamp\<close> and \<open>_printlnTimestamp\<close> are not among them.
\<close>

datatype call =
    Assert jsval "jsval list"
  | Clear
  | Debug "jsval list"
  | ErrorCall "jsval list"
  | Info "jsval list"
  | Log "jsval list"
  | Table jsval jsval
  | Trace "jsval list"
  | Warn "jsval list"
  | Dir jsval jsval
  | Dirxml "jsval list"
  | Count jsval
  | CountReset jsval
  | Group "jsval list"
  | GroupCollapsed "jsval list"
  | GroupEnd
  | Time jsval
  | TimeLog jsval "jsval list"
  | TimeEnd jsval

fun invoke :: "host \<Rightarrow> fields \<Rightarrow> call \<Rightarrow> event list stmt" where
  "invoke H this (Assert c data) = assert H this c data"
| "invoke H this Clear = clear H this"
| "invoke H this (Debug data) = debug H this data"
| "invoke H this (ErrorCall data) = error H this data"
| "invoke H this (Info data) = info H this data"
| "invoke H this (Log data) = log H this data"
| "invoke H this (Table d p) = table H this d p"
| "invoke H this (Trace data) = trace H this data"
| "invoke H this (Warn data) = warn H this data"
| "invoke H this (Dir i opts) = dir H this i opts"
| "invoke H this (Dirxml data) = dirxml H this data"
| "invoke H this (Count l) = count H this l"
| "invoke H this (CountReset l) = countReset H this l"
| "invoke H this (Group l) = group H this l"
| "invoke H this (GroupCollapsed l) = groupCollapsed H this l"
| "invoke H this GroupEnd = groupEnd H this"
| "invoke H this (Time l) = time H this l"
| "invoke H this (TimeLog l data) = timeLog H this l data"
| "invoke H this (TimeEnd l) = timeEnd H this l"

section \<open>Notions used to state the properties\<close>

text \<open>An argument is provided when it is not \<open>undefined\<close>.\<close>

definition provided :: "jsval \<Rightarrow> bool" where
  "provided v = (v \<noteq> JUndefined)"

fun is_string :: "jsval \<Rightarrow> bool" where
  "is_string (JStr s) = True"
| "is_string v = False"

fun is_object :: "jsval \<Rightarrow> bool" where
  "is_object (JObj kvs) = True"
| "is_object v = False"

text \<open>
  A quote violates its shape when it is not a sequence, has length 0 or at least 3,
  or contains an element that is not a string. A hole is not an element.
\<close>

fun not_string_elem :: "jsval option \<Rightarrow> bool" where
  "not_string_elem None = False"
| "not_string_elem (Some v) = (\<not> is_string v)"

fun bad_quote :: "jsval \<Rightarrow> bool" where
  "bad_quote (JArr xs) = (length xs = 0 \<or> 3 \<le> length xs \<or> list_ex not_string_elem xs)"
| "bad_quote v = True"

text \<open>An array without holes; every value that is not an array counts as dense.\<close>

fun dense :: "jsval \<Rightarrow> bool" where
  "dense (JArr xs) = list_all (\<lambda>e. e \<noteq> None) xs"
| "dense v = True"

definition shape_violation :: "jsval \<Rightarrow> jsval \<Rightarrow> jsval \<Rightarrow> jsval \<Rightarrow> bool" where
  "shape_violation l opts q sep =
     ((provided l \<and> \<not> is_string l) \<or> (provided opts \<and> \<not> is_object opts) \<or>
      (provided q \<and> bad_quote q) \<or> (provided sep \<and> \<not> is_string sep))"

text \<open>
  The specification calls the errors of the constructor \<open>InvalidArgument\<close>; in the
  source they are the \<open>TypeError\<close>s and the \<open>RangeError\<close> thrown by the constructor.
\<close>

fun InvalidArgument :: "js_error \<Rightarrow> bool" where
  "InvalidArgument (TypeError m) = True"
| "InvalidArgument (RangeError m) = True"
| "InvalidArgument e = False"

text \<open>The events a call appends to the trace \<open>tr\<close> it started from.\<close>

definition emitted :: "event list \<Rightarrow> (js_error + unit) \<times> event list \<Rightarrow> event list" where
  "emitted tr r = drop (length tr) (snd r)"

fun is_console :: "event \<Rightarrow> bool" where
  "is_console (Console name args) = True"
| "is_console e = False"

text \<open>No write to a stream comes after a call of the underlying console.\<close>

fun writes_first :: "event list \<Rightarrow> bool" where
  "writes_first [] = True"
| "writes_first (Console name args # es) = list_all is_console es"
| "writes_first (e # es) = writes_first es"

text \<open>The rendered fragment: open quote, formatted time, close quote, separator.\<close>

definition fragment :: "fields \<Rightarrow> string \<Rightarrow> jsval \<Rightarrow> string" where
  "fragment this t sep = ToString (openQuote this) @ t @ ToString (closeQuote this) @ ToString sep"

text \<open>
  A host formatter for concrete runs: it rejects the locale \<open>!\<close>, which is not a
  language tag, and formats every other request as \<open>12:34:56\<close>.
\<close>

definition sample_host :: host where
  "sample_host l opts =
     (if l = JStr ''!'' then Inl ''Incorrect locale information provided''
      else Inr ''12:34:56'')"

section \<open>Properties\<close>

subsection \<open>Sequencing and the timestamp\<close>

lemmas method_defs =
  assert_def clear_def debug_def error_def info_def log_def table_def trace_def warn_def
  dir_def dirxml_def count_def countReset_def group_def groupCollapsed_def groupEnd_def
  time_def timeLog_def timeEnd_def printlnTimestamp_def

lemmas level_defs = LOG_LEVEL_log_def LOG_LEVEL_info_def LOG_LEVEL_warn_def LOG_LEVEL_error_def

text \<open>
  When the host formatter returns the time, \<open>_printTimestamp\<close> writes the fragment to
  the stream of the level, or throws for a level outside the four.
\<close>

lemma printTimestamp_ok:
  assumes "H (locales this) (options this) = Inr t"
  shows "printTimestamp H this lvl sep tr =
     (if lvl = ''log'' \<or> lvl = ''info'' \<or> lvl = ''warn''
      then (Inr (), tr @ [Stdout (fragment this t (if sep = JUndefined then separator this else sep))])
      else if lvl = ''error''
      then (Inr (), tr @ [Stderr (fragment this t (if sep = JUndefined then separator this else sep))])
      else (Inl (Error (''An undefined `logLevel` was specified as an argument. '' @
                     ''`logLevel` must be one of the groups defined below. '' @
                     ''<https://console.spec.whatwg.org/#loglevel-severity>'')), tr))"
  using assms
  by (simp add: printTimestamp_def fragment_def throw_def LOG_LEVEL_log_def LOG_LEVEL_info_def
      LOG_LEVEL_warn_def LOG_LEVEL_error_def Let_def)

text \<open>
  When the host formatter raises, the exception leaves \<open>_printTimestamp\<close> before
  anything is written.
\<close>

lemma printTimestamp_host_raises:
  assumes "H (locales this) (options this) = Inl m"
  shows "printTimestamp H this lvl sep tr = (Inl (HostException m), tr)"
  using assms by (simp add: printTimestamp_def throw_def Let_def)

text \<open>
  The \<open>default\<close> branch is live: a level outside the four reaches it.
\<close>

lemma printTimestamp_unknown_level:
  "printTimestamp sample_host initial_fields ''fatal'' JUndefined [] =
     (Inl (Error (''An undefined `logLevel` was specified as an argument. '' @
                     ''`logLevel` must be one of the groups defined below. '' @
                     ''<https://console.spec.whatwg.org/#loglevel-severity>'')), [])"
  by (simp add: printTimestamp_def sample_host_def initial_fields_def level_defs throw_def)

text \<open>
  A public call either completes, having appended some writes and then exactly one
  call of the console, or propagates the exception of the host formatter.
\<close>

lemma invoke_host_ok:
  assumes "H (locales this) (options this) = Inr t"
  shows "\<exists>ws name args. invoke H this c tr = (Inr (), tr @ ws @ [Console name args]) \<and>
           list_all (\<lambda>e. \<not> is_console e) ws"
  using assms
  by (cases c) (simp_all add: method_defs level_defs printTimestamp_ok seq_def skip_def console_def)

lemma invoke_host_raises:
  assumes "H (locales this) (options this) = Inl m"
  shows "invoke H this c tr = (Inl (HostException m), tr) \<or>
         (\<exists>name args. invoke H this c tr = (Inr (), tr @ [Console name args]))"
  using assms
  by (cases c) (simp_all add: method_defs printTimestamp_host_raises seq_def skip_def console_def)

lemma writes_first_append:
  "list_all (\<lambda>e. \<not> is_console e) ws \<Longrightarrow> writes_first (ws @ [Console name args])"
proof (induction ws)
  case Nil
  then show ?case by simp
next
  case (Cons w ws)
  then show ?case by (cases w) simp_all
qed

subsection \<open>The constructor, block by block\<close>

lemma tag_string: "(toStringTag v = ''[object String]'') = is_string v"
  by (cases v) simp_all

lemma tag_object: "(toStringTag v = ''[object Object]'') = is_object v"
  by (cases v) simp_all

lemma all_strings: "js_every (\<lambda>val. toStringTag val = ''[object String]'') xs =
    (\<not> list_ex not_string_elem xs)"
proof (induction xs)
  case Nil
  then show ?case by simp
next
  case (Cons e xs)
  then show ?case by (cases e) (simp_all add: tag_string)
qed

lemma ctor_locales_eq:
  "ctor_locales l this =
     (if provided l \<and> \<not> is_string l
      then (Inl (TypeError ''The argument `locales` must be an String.''), this)
      else (Inr (), if provided l then this\<lparr>locales := l\<rparr> else this))"
  by (simp add: ctor_locales_def provided_def tag_string throw_def skip_def)

lemma ctor_options_eq:
  "ctor_options opts this =
     (if provided opts \<and> \<not> is_object opts
      then (Inl (TypeError ''The argument `options` must be an Object.''), this)
      else (Inr (), if provided opts then this\<lparr>options := opts\<rparr> else this))"
  by (simp add: ctor_options_def provided_def tag_object throw_def skip_def)

lemma ctor_separator_eq:
  "ctor_separator sep this =
     (if provided sep \<and> \<not> is_string sep
      then (Inl (TypeError ''The argument `separator` must be an String.''), this)
      else (Inr (), if provided sep then this\<lparr>separator := sep\<rparr> else this))"
  by (simp add: ctor_separator_def provided_def tag_string throw_def skip_def)

text \<open>A quote that passes the checks is an array of one or two slots.\<close>

lemma good_quote_shape:
  assumes "\<not> bad_quote q"
  shows "(\<exists>e. q = JArr [e] \<and> \<not> not_string_elem e) \<or>
         (\<exists>e f. q = JArr [e, f] \<and> \<not> not_string_elem e \<and> \<not> not_string_elem f)"
proof (cases q)
  case (JArr xs)
  with assms have "length xs \<noteq> 0" and "\<not> 3 \<le> length xs"
    and strs: "\<not> list_ex not_string_elem xs"
    by simp_all
  then have len: "length xs = 1 \<or> length xs = 2" by arith
  from len show ?thesis
  proof
    assume "length xs = 1"
    then obtain x where "xs = [x]" by (cases xs) auto
    with strs JArr show ?thesis by simp
  next
    assume "length xs = 2"
    then obtain x y where "xs = [x, y]"
      by (cases xs; cases "tl xs") auto
    with strs JArr show ?thesis by simp
  qed
qed (use assms in simp_all)

lemma ctor_quote_slot:
  assumes "\<not> not_string_elem e"
  shows "ctor_quote (JArr [e]) this =
           (Inr (), this\<lparr>openQuote := js_elem e, closeQuote := js_elem e\<rparr>)"
  using assms by (simp add: ctor_quote_def js_index_def all_strings)

lemma ctor_quote_slots:
  assumes "\<not> not_string_elem e" and "\<not> not_string_elem f"
  shows "ctor_quote (JArr [e, f]) this =
           (Inr (), this\<lparr>openQuote := js_elem e, closeQuote := js_elem f\<rparr>)"
  using assms by (simp add: ctor_quote_def js_index_def all_strings)

lemma ctor_quote_one:
  "ctor_quote (JArr [Some (JStr a)]) this =
     (Inr (), this\<lparr>openQuote := JStr a, closeQuote := JStr a\<rparr>)"
  by (simp add: ctor_quote_slot)

lemma ctor_quote_two:
  "ctor_quote (JArr [Some (JStr a), Some (JStr b)]) this =
     (Inr (), this\<lparr>openQuote := JStr a, closeQuote := JStr b\<rparr>)"
  by (simp add: ctor_quote_slots)

lemma ctor_quote_omitted: "ctor_quote JUndefined this = (Inr (), this)"
  by (simp add: ctor_quote_def skip_def)

lemma ctor_quote_bad:
  assumes "provided q" and "bad_quote q"
  shows "\<exists>e. ctor_quote q this = (Inl e, this) \<and> InvalidArgument e"
proof (cases q)
  case (JArr xs)
  with assms show ?thesis
    by (auto simp: ctor_quote_def throw_def all_strings)
qed (use assms in \<open>simp_all add: ctor_quote_def throw_def provided_def\<close>)

lemma ctor_quote_good:
  assumes "\<not> (provided q \<and> bad_quote q)"
  shows "\<exists>this'. ctor_quote q this = (Inr (), this') \<and> locales this' = locales this \<and>
           options this' = options this \<and> separator this' = separator this \<and>
           (\<not> provided q \<longrightarrow> this' = this) \<and>
           (provided q \<and> dense q \<longrightarrow>
              is_string (openQuote this') \<and> is_string (closeQuote this'))"
proof (cases "provided q")
  case False
  then show ?thesis by (simp add: provided_def ctor_quote_omitted)
next
  case True
  with assms have "\<not> bad_quote q" by simp
  from good_quote_shape [OF this] show ?thesis
  proof (elim disjE exE conjE)
    fix e
    assume "q = JArr [e]" and "\<not> not_string_elem e"
    with True show ?thesis by (cases e) (simp_all add: ctor_quote_slot)
  next
    fix e f
    assume "q = JArr [e, f]" and "\<not> not_string_elem e" and "\<not> not_string_elem f"
    with True show ?thesis by (cases e; cases f) (simp_all add: ctor_quote_slots)
  qed
qed

text \<open>
  The constructor completes exactly on the inputs without a shape violation, and then
  stores the locale, the options and the separator as given.
\<close>

lemma constructor_ok:
  assumes "\<not> shape_violation l opts q sep"
  shows "\<exists>this'. constructor l opts q sep this = (Inr (), this') \<and>
           locales this' = (if provided l then l else locales this) \<and>
           options this' = (if provided opts then opts else options this) \<and>
           separator this' = (if provided sep then sep else separator this) \<and>
           (provided q \<and> dense q \<longrightarrow>
              is_string (openQuote this') \<and> is_string (closeQuote this')) \<and>
           (\<not> provided q \<longrightarrow> openQuote this' = openQuote this \<and> closeQuote this' = closeQuote this)"
proof -
  from assms have l: "\<not> (provided l \<and> \<not> is_string l)" and o: "\<not> (provided opts \<and> \<not> is_object opts)"
    and q: "\<not> (provided q \<and> bad_quote q)" and s: "\<not> (provided sep \<and> \<not> is_string sep)"
    by (simp_all add: shape_violation_def)
  define this1 where "this1 = (if provided l then this\<lparr>locales := l\<rparr> else this)"
  define this2 where "this2 = (if provided opts then this1\<lparr>options := opts\<rparr> else this1)"
  have 1: "ctor_locales l this = (Inr (), this1)"
    using l by (simp add: ctor_locales_eq this1_def)
  have 2: "ctor_options opts this1 = (Inr (), this2)"
    using o by (simp add: ctor_options_eq this2_def)
  obtain this3 where 3: "ctor_quote q this2 = (Inr (), this3)"
    and keep: "locales this3 = locales this2" "options this3 = options this2"
      "separator this3 = separator this2"
    and omitted: "\<not> provided q \<longrightarrow> this3 = this2"
    and strs: "provided q \<and> dense q \<longrightarrow>
                 is_string (openQuote this3) \<and> is_string (closeQuote this3)"
    using ctor_quote_good [OF q, of this2] by blast
  have 4: "ctor_separator sep this3 =
             (Inr (), if provided sep then this3\<lparr>separator := sep\<rparr> else this3)"
    using s by (simp add: ctor_separator_eq)
  have run: "constructor l opts q sep this =
               (Inr (), if provided sep then this3\<lparr>separator := sep\<rparr> else this3)"
    by (simp add: constructor_def seq_def 1 2 3 4)
  show ?thesis
    using keep omitted strs by (simp add: run this1_def this2_def)
qed

lemma constructor_bad:
  assumes "shape_violation l opts q sep"
  shows "\<exists>e this'. constructor l opts q sep this = (Inl e, this') \<and> InvalidArgument e"
proof -
  consider (l) "provided l \<and> \<not> is_string l"
    | (o) "\<not> (provided l \<and> \<not> is_string l)" "provided opts \<and> \<not> is_object opts"
    | (q) "\<not> (provided l \<and> \<not> is_string l)" "\<not> (provided opts \<and> \<not> is_object opts)"
          "provided q \<and> bad_quote q"
    | (s) "\<not> (provided l \<and> \<not> is_string l)" "\<not> (provided opts \<and> \<not> is_object opts)"
          "\<not> (provided q \<and> bad_quote q)" "provided sep \<and> \<not> is_string sep"
    using assms by (auto simp: shape_violation_def)
  then show ?thesis
  proof cases
    case l
    then show ?thesis by (simp add: constructor_def seq_def ctor_locales_eq)
  next
    case o
    then show ?thesis by (simp add: constructor_def seq_def ctor_locales_eq ctor_options_eq)
  next
    case q
    define this2 where "this2 = (if provided opts then (if provided l then this\<lparr>locales := l\<rparr> else this)\<lparr>options := opts\<rparr> else (if provided l then this\<lparr>locales := l\<rparr> else this))"
    obtain e where "ctor_quote q this2 = (Inl e, this2)" "InvalidArgument e"
      using ctor_quote_bad [of q this2] q(3) by blast
    with q show ?thesis
      by (simp add: constructor_def seq_def ctor_locales_eq ctor_options_eq this2_def)
  next
    case s
    define this2 where "this2 = (if provided opts then (if provided l then this\<lparr>locales := l\<rparr> else this)\<lparr>options := opts\<rparr> else (if provided l then this\<lparr>locales := l\<rparr> else this))"
    obtain this3 where "ctor_quote q this2 = (Inr (), this3)"
      using ctor_quote_good [OF s(3), of this2] by blast
    with s show ?thesis
      by (simp add: constructor_def seq_def ctor_locales_eq ctor_options_eq ctor_separator_eq this2_def)
  qed
qed

subsection \<open>Routing by severity\<close>

text \<open>
  Claim C1. Whenever the host formatter returns the time, \<open>_printTimestamp\<close> appends the
  fragment to the standard output stream for the levels \<open>log\<close>, \<open>info\<close> and \<open>warn\<close>,
  and to the standard error stream for the level \<open>error\<close>; and in every call of a public
  method the writes come before the call of the underlying console operation.
\<close>

theorem printTimestamp_routes_by_severity:
  assumes "H (locales this) (options this) = Inr t"
  shows "printTimestamp H this LOG_LEVEL_log sep tr =
           (Inr (), tr @ [Stdout (fragment this t (if sep = JUndefined then separator this else sep))]) \<and>
         printTimestamp H this LOG_LEVEL_info sep tr =
           (Inr (), tr @ [Stdout (fragment this t (if sep = JUndefined then separator this else sep))]) \<and>
         printTimestamp H this LOG_LEVEL_warn sep tr =
           (Inr (), tr @ [Stdout (fragment this t (if sep = JUndefined then separator this else sep))]) \<and>
         printTimestamp H this LOG_LEVEL_error sep tr =
           (Inr (), tr @ [Stderr (fragment this t (if sep = JUndefined then separator this else sep))]) \<and>
         writes_first (emitted tr (invoke H this c tr))"
proof -
  obtain ws name args where
    "invoke H this c tr = (Inr (), tr @ ws @ [Console name args])"
    "list_all (\<lambda>e. \<not> is_console e) ws"
    using invoke_host_ok [of H this t c tr] assms by blast
  then have "writes_first (emitted tr (invoke H this c tr))"
    by (simp add: emitted_def writes_first_append)
  then show ?thesis
    using assms by (simp add: printTimestamp_ok level_defs)
qed

theorem printTimestamp_routes_by_severity_witness:
  "printTimestamp sample_host initial_fields LOG_LEVEL_warn JUndefined [] =
     (Inr (), [Stdout ''12:34:56 '']) \<and>
   printTimestamp sample_host initial_fields LOG_LEVEL_error JUndefined [] =
     (Inr (), [Stderr ''12:34:56 '']) \<and>
   writes_first (emitted [] (invoke sample_host initial_fields (Log [JStr ''Hello'']) []))"
proof -
  have h: "sample_host (locales initial_fields) (options initial_fields) = Inr ''12:34:56''"
    by (simp add: sample_host_def initial_fields_def)
  show ?thesis
    using printTimestamp_routes_by_severity
      [of sample_host initial_fields "''12:34:56''" JUndefined "[]" "Log [JStr ''Hello'']"] h
    by (simp add: fragment_def initial_fields_def)
qed

subsection \<open>The fragment\<close>

text \<open>
  Claim C2. For an instance built by the constructor from \<open>l\<close>, \<open>opts\<close>, \<open>q\<close> and
  \<open>sep\<close>, the formatter is asked with exactly \<open>l\<close> and \<open>opts\<close>, the separator is a
  string, the quotes are strings when \<open>q\<close> has no hole, and every fragment written is
  the open quote, the formatted time, the close quote and the separator (the configured
  one, or the one passed by the caller), concatenated in this order as the template
  literal does.
\<close>

theorem fragment_is_quoted_time_then_separator:
  assumes "new_ConsoleLocaleTimestamp l opts q sep tr = (Inr this, tr')"
    and "H l opts = Inr t"
    and "lvl \<in> {LOG_LEVEL_log, LOG_LEVEL_info, LOG_LEVEL_warn, LOG_LEVEL_error}"
  shows "locales this = l \<and> options this = opts \<and>
         (dense q \<longrightarrow> is_string (openQuote this) \<and> is_string (closeQuote this)) \<and>
         is_string (separator this) \<and>
         printTimestamp H this lvl sp es =
           (Inr (), es @ [(if lvl = LOG_LEVEL_error then Stderr else Stdout)
              (ToString (openQuote this) @ t @ ToString (closeQuote this) @
               ToString (if sp = JUndefined then separator this else sp))])"
proof -
  have ok: "\<not> shape_violation l opts q sep"
  proof
    assume "shape_violation l opts q sep"
    then show False
      using constructor_bad [of l opts q sep initial_fields] assms(1)
      by (auto simp: new_ConsoleLocaleTimestamp_def)
  qed
  then have s: "\<not> (provided sep \<and> \<not> is_string sep)"
    by (simp add: shape_violation_def)
  obtain this' where run: "constructor l opts q sep initial_fields = (Inr (), this')"
    and loc: "locales this' = (if provided l then l else locales initial_fields)"
    and opt: "options this' = (if provided opts then opts else options initial_fields)"
    and sepf: "separator this' = (if provided sep then sep else separator initial_fields)"
    and qs: "provided q \<and> dense q \<longrightarrow>
               is_string (openQuote this') \<and> is_string (closeQuote this')"
    and qd: "\<not> provided q \<longrightarrow> openQuote this' = openQuote initial_fields \<and>
               closeQuote this' = closeQuote initial_fields"
    using constructor_ok [OF ok, of initial_fields] by blast
  from run assms(1) have eq: "this = this'"
    by (simp add: new_ConsoleLocaleTimestamp_def)
  have 1: "locales this = l" "options this = opts"
    using loc opt by (simp_all add: eq provided_def initial_fields_def)
  have 2: "dense q \<longrightarrow> is_string (openQuote this) \<and> is_string (closeQuote this)"
    using qs qd by (cases "provided q") (simp_all add: eq initial_fields_def)
  have 3: "is_string (separator this)"
    using sepf s by (cases "provided sep") (simp_all add: eq initial_fields_def)
  have "H (locales this) (options this) = Inr t"
    using assms(2) 1 by simp
  then have 4: "printTimestamp H this lvl sp es =
           (Inr (), es @ [(if lvl = LOG_LEVEL_error then Stderr else Stdout)
              (ToString (openQuote this) @ t @ ToString (closeQuote this) @
               ToString (if sp = JUndefined then separator this else sp))])"
    using assms(3) by (auto simp: printTimestamp_ok level_defs fragment_def)
  show ?thesis using 1 2 3 4 by simp
qed

theorem fragment_is_quoted_time_then_separator_witness:
  "printTimestamp sample_host
     \<lparr>locales = JStr ''en-US'', options = JUndefined, openQuote = JStr ''['',
      closeQuote = JStr '']'', separator = JStr '' - ''\<rparr> LOG_LEVEL_log JUndefined [] =
     (Inr (), [Stdout ''[12:34:56] - ''])"
proof -
  have n: "new_ConsoleLocaleTimestamp (JStr ''en-US'') JUndefined (JArr [Some (JStr ''[''), Some (JStr '']'')])
             (JStr '' - '') [] =
           (Inr \<lparr>locales = JStr ''en-US'', options = JUndefined, openQuote = JStr ''['',
              closeQuote = JStr '']'', separator = JStr '' - ''\<rparr>, [])"
    by (simp add: new_ConsoleLocaleTimestamp_def constructor_def seq_def ctor_locales_eq
        ctor_options_eq ctor_quote_two ctor_separator_eq provided_def initial_fields_def)
  have h: "sample_host (JStr ''en-US'') JUndefined = Inr ''12:34:56''"
    by (simp add: sample_host_def)
  have v: "LOG_LEVEL_log \<in> {LOG_LEVEL_log, LOG_LEVEL_info, LOG_LEVEL_warn, LOG_LEVEL_error}"
    by simp
  show ?thesis
    using fragment_is_quoted_time_then_separator
      [of "JStr ''en-US''" JUndefined "JArr [Some (JStr ''[''), Some (JStr '']'')]" "JStr '' - ''" "[]"
          "\<lparr>locales = JStr ''en-US'', options = JUndefined, openQuote = JStr ''['',
            closeQuote = JStr '']'', separator = JStr '' - ''\<rparr>" "[]"
          sample_host "''12:34:56''" LOG_LEVEL_log JUndefined "[]"] n h v
    by (simp add: level_defs)
qed

subsection \<open>Validation at construction\<close>

text \<open>
  What the constructor does on every input: it throws, with a \<open>TypeError\<close> or a
  \<open>RangeError\<close>, exactly when a provided argument is rejected by its check, and returns
  an instance otherwise; the trace is unchanged in both cases. For the quote, only the
  elements are checked: a hole passes.
\<close>

lemma construction_throws_iff_rejected:
  "(shape_violation l opts q sep \<longrightarrow>
      (\<exists>e. new_ConsoleLocaleTimestamp l opts q sep tr = (Inl e, tr) \<and> InvalidArgument e)) \<and>
   (\<not> shape_violation l opts q sep \<longrightarrow>
      (\<exists>this. new_ConsoleLocaleTimestamp l opts q sep tr = (Inr this, tr)))"
proof (cases "shape_violation l opts q sep")
  case True
  then show ?thesis
    using constructor_bad [of l opts q sep initial_fields]
    by (auto simp: new_ConsoleLocaleTimestamp_def)
next
  case False
  then show ?thesis
    using constructor_ok [of l opts q sep initial_fields]
    by (auto simp: new_ConsoleLocaleTimestamp_def)
qed

text \<open>
  Claim C3 fails on a quote with a hole. The quote \<open>new Array(1)\<close> is no sequence of one
  or two strings, and neither is \<open>['[', ,]\<close>; both are accepted, and \<open>undefined\<close> is
  stored as a quote, which \<open>log\<close> then prints. The same arrays with \<open>undefined\<close> as an
  element in place of the hole are rejected.
\<close>

theorem quote_with_hole_is_accepted:
  "new_ConsoleLocaleTimestamp JUndefined JUndefined (JArr [None]) JUndefined [] =
     (Inr (initial_fields\<lparr>openQuote := JUndefined, closeQuote := JUndefined\<rparr>), []) \<and>
   new_ConsoleLocaleTimestamp JUndefined JUndefined (JArr [Some (JStr ''[''), None]) JUndefined [] =
     (Inr (initial_fields\<lparr>openQuote := JStr ''['', closeQuote := JUndefined\<rparr>), []) \<and>
   new_ConsoleLocaleTimestamp JUndefined JUndefined (JArr [Some JUndefined]) JUndefined [] =
     (Inl (TypeError ''The contents of the Array of arguments `quote` must be a String.''), []) \<and>
   new_ConsoleLocaleTimestamp JUndefined JUndefined (JArr [Some (JStr ''[''), Some JUndefined])
       JUndefined [] =
     (Inl (TypeError ''The contents of the Array of arguments `quote` must be a String.''), []) \<and>
   log sample_host (initial_fields\<lparr>openQuote := JUndefined, closeQuote := JUndefined\<rparr>)
       [JStr ''Hello''] [] =
     (Inr (), [Stdout ''undefined12:34:56undefined '', Console ''log'' [JStr ''Hello'']])"
proof -
  have ctor: "\<And>q. new_ConsoleLocaleTimestamp JUndefined JUndefined q JUndefined [] =
      (case ctor_quote q initial_fields of (Inl e, this) \<Rightarrow> (Inl e, [])
       | (Inr u, this) \<Rightarrow> (Inr this, []))"
    by (simp add: new_ConsoleLocaleTimestamp_def constructor_def seq_def ctor_locales_eq
        ctor_options_eq ctor_separator_eq provided_def split: prod.splits sum.splits)
  have 1: "new_ConsoleLocaleTimestamp JUndefined JUndefined (JArr [None]) JUndefined [] =
     (Inr (initial_fields\<lparr>openQuote := JUndefined, closeQuote := JUndefined\<rparr>), [])"
    by (simp add: ctor ctor_quote_slot)
  have 2: "new_ConsoleLocaleTimestamp JUndefined JUndefined (JArr [Some (JStr ''[''), None])
       JUndefined [] =
     (Inr (initial_fields\<lparr>openQuote := JStr ''['', closeQuote := JUndefined\<rparr>), [])"
    by (simp add: ctor ctor_quote_slots)
  have 3: "new_ConsoleLocaleTimestamp JUndefined JUndefined (JArr [Some JUndefined]) JUndefined [] =
     (Inl (TypeError ''The contents of the Array of arguments `quote` must be a String.''), [])"
    by (simp add: ctor ctor_quote_def throw_def)
  have 4: "new_ConsoleLocaleTimestamp JUndefined JUndefined
       (JArr [Some (JStr ''[''), Some JUndefined]) JUndefined [] =
     (Inl (TypeError ''The contents of the Array of arguments `quote` must be a String.''), [])"
    by (simp add: ctor ctor_quote_def throw_def)
  have 5: "log sample_host (initial_fields\<lparr>openQuote := JUndefined, closeQuote := JUndefined\<rparr>)
       [JStr ''Hello''] [] =
     (Inr (), [Stdout ''undefined12:34:56undefined '', Console ''log'' [JStr ''Hello'']])"
    by (simp add: log_def seq_def console_def printTimestamp_def sample_host_def
        initial_fields_def level_defs)
  show ?thesis using 1 2 3 4 5 by simp
qed



subsection \<open>The public methods\<close>








subsection \<open>Failure of the constructor\<close>

text \<open>
  Claim C8, as stated, fails: with a valid locale and an invalid options value, the
  field \<open>#locales\<close> has been assigned when the constructor throws.
\<close>

theorem constructor_sets_locales_before_abort_counterexample:
  "constructor (JStr ''en-US'') (JNum ''5'') JUndefined JUndefined initial_fields =
     (Inl (TypeError ''The argument `options` must be an Object.''),
      initial_fields\<lparr>locales := JStr ''en-US''\<rparr>) \<and>
   initial_fields\<lparr>locales := JStr ''en-US''\<rparr> \<noteq> initial_fields"
  by (simp add: constructor_def seq_def ctor_locales_eq ctor_options_eq provided_def
      initial_fields_def)

text \<open>
  Claim C8, amended. When an argument violates its shape, the \<open>new\<close> expression
  throws, returns no instance and writes nothing; on the dropped object the fields of
  the arguments checked before the failing one (in the order locales, options, quote,
  separator) have been assigned, and the other fields hold their initial values.
\<close>

theorem failed_construction_yields_no_instance:
  assumes "shape_violation l opts q sep"
  shows "(\<exists>e. new_ConsoleLocaleTimestamp l opts q sep tr = (Inl e, tr)) \<and>
         snd (constructor l opts q sep initial_fields) =
           (if provided l \<and> \<not> is_string l then initial_fields
            else if provided opts \<and> \<not> is_object opts then initial_fields\<lparr>locales := l\<rparr>
            else if provided q \<and> bad_quote q
            then initial_fields\<lparr>locales := l, options := opts\<rparr>
            else (case q of
                    JArr [a] \<Rightarrow>
                      initial_fields\<lparr>locales := l, options := opts,
                        openQuote := js_elem a, closeQuote := js_elem a\<rparr>
                  | JArr [a, b] \<Rightarrow>
                      initial_fields\<lparr>locales := l, options := opts,
                        openQuote := js_elem a, closeQuote := js_elem b\<rparr>
                  | _ \<Rightarrow> initial_fields\<lparr>locales := l, options := opts\<rparr>))"
proof -
  have init: "initial_fields\<lparr>locales := JUndefined\<rparr> = initial_fields"
    "initial_fields\<lparr>options := JUndefined\<rparr> = initial_fields"
    "initial_fields\<lparr>locales := l, options := JUndefined\<rparr> = initial_fields\<lparr>locales := l\<rparr>"
    by (simp_all add: initial_fields_def)
  have no_instance: "\<exists>e. new_ConsoleLocaleTimestamp l opts q sep tr = (Inl e, tr)"
    using constructor_bad [OF assms, of initial_fields]
    by (auto simp: new_ConsoleLocaleTimestamp_def)
  define this2 where "this2 = initial_fields\<lparr>locales := l, options := opts\<rparr>"
  have c1: "\<not> (provided l \<and> \<not> is_string l) \<Longrightarrow>
             ctor_locales l initial_fields = (Inr (), initial_fields\<lparr>locales := l\<rparr>)"
    by (auto simp: ctor_locales_eq provided_def init)
  have c2: "\<not> (provided opts \<and> \<not> is_object opts) \<Longrightarrow>
             ctor_options opts (initial_fields\<lparr>locales := l\<rparr>) = (Inr (), this2)"
    by (auto simp: ctor_options_eq provided_def this2_def initial_fields_def)
  have state: "snd (constructor l opts q sep initial_fields) =
           (if provided l \<and> \<not> is_string l then initial_fields
            else if provided opts \<and> \<not> is_object opts then initial_fields\<lparr>locales := l\<rparr>
            else if provided q \<and> bad_quote q then this2
            else (case q of
                    JArr [a] \<Rightarrow> this2\<lparr>openQuote := js_elem a, closeQuote := js_elem a\<rparr>
                  | JArr [a, b] \<Rightarrow> this2\<lparr>openQuote := js_elem a, closeQuote := js_elem b\<rparr>
                  | _ \<Rightarrow> this2))"
  proof -
    consider (l) "provided l \<and> \<not> is_string l"
      | (o) "\<not> (provided l \<and> \<not> is_string l)" "provided opts \<and> \<not> is_object opts"
      | (q) "\<not> (provided l \<and> \<not> is_string l)" "\<not> (provided opts \<and> \<not> is_object opts)"
            "provided q \<and> bad_quote q"
      | (s) "\<not> (provided l \<and> \<not> is_string l)" "\<not> (provided opts \<and> \<not> is_object opts)"
            "\<not> (provided q \<and> bad_quote q)" "provided sep \<and> \<not> is_string sep"
      using assms by (auto simp: shape_violation_def)
    then show ?thesis
    proof cases
      case l
      then show ?thesis by (simp add: constructor_def seq_def ctor_locales_eq)
    next
      case o
      then show ?thesis
        by (auto simp: constructor_def seq_def c1 ctor_options_eq)
    next
      case q
      obtain e where "ctor_quote q this2 = (Inl e, this2)"
        using ctor_quote_bad [of q this2] q(3) by blast
      with q show ?thesis
        by (auto simp: constructor_def seq_def c1 c2)
    next
      case s
      have "ctor_quote q this2 = (Inr (), (case q of
                    JArr [a] \<Rightarrow> this2\<lparr>openQuote := js_elem a, closeQuote := js_elem a\<rparr>
                  | JArr [a, b] \<Rightarrow> this2\<lparr>openQuote := js_elem a, closeQuote := js_elem b\<rparr>
                  | _ \<Rightarrow> this2))"
      proof (cases "provided q")
        case False
        then show ?thesis by (simp add: provided_def ctor_quote_omitted)
      next
        case True
        with s(3) have "\<not> bad_quote q" by simp
        from good_quote_shape [OF this] show ?thesis
          by (auto simp: ctor_quote_slot ctor_quote_slots)
      qed
      with s show ?thesis
        by (auto simp: constructor_def seq_def c1 c2 ctor_separator_eq)
    qed
  qed
  show ?thesis
    using no_instance state [unfolded this2_def] by (rule conjI)
qed

theorem failed_construction_yields_no_instance_witness:
  "(\<exists>e. new_ConsoleLocaleTimestamp (JStr ''en-US'') (JNum ''5'') JUndefined JUndefined [] = (Inl e, [])) \<and>
   snd (constructor (JStr ''en-US'') (JNum ''5'') JUndefined JUndefined initial_fields) =
     initial_fields\<lparr>locales := JStr ''en-US''\<rparr>"
proof -
  have v: "shape_violation (JStr ''en-US'') (JNum ''5'') JUndefined JUndefined"
    by (simp add: shape_violation_def provided_def)
  show ?thesis
    using failed_construction_yields_no_instance [OF v, of "[]"]
    by (simp add: provided_def)
qed

subsection \<open>The unreachable branch\<close>

text \<open>
  Claim C9. No call of a public method, on any instance, with any arguments and any host
  formatter, ends in the \<open>Error\<close> of the \<open>default\<close> branch of \<open>_printTimestamp\<close>:
  the public methods pass only the four levels of \<open>LOG_LEVEL\<close>.
\<close>

theorem invoke_never_internal_error:
  "fst (invoke H this c tr) \<noteq> Inl (Error msg)"
proof (cases "H (locales this) (options this)")
  case (Inl m)
  then show ?thesis using invoke_host_raises [of H this m c tr] by auto
next
  case (Inr t)
  then show ?thesis using invoke_host_ok [of H this t c tr] by auto
qed

subsection \<open>An explicit \<open>undefined\<close> in the quote\<close>

text \<open>
  Claim C10. A quote of length 2 whose second element is \<open>undefined\<close> is rejected with
  the \<open>TypeError\<close> for the contents of the array, while the quote of length 1 with the
  same first element is accepted.
\<close>

theorem explicit_undefined_second_quote_rejected:
  "new_ConsoleLocaleTimestamp JUndefined JUndefined (JArr [Some (JStr a), Some JUndefined])
     JUndefined tr =
     (Inl (TypeError ''The contents of the Array of arguments `quote` must be a String.''), tr) \<and>
   new_ConsoleLocaleTimestamp JUndefined JUndefined (JArr [Some (JStr a)]) JUndefined tr =
     (Inr (initial_fields\<lparr>openQuote := JStr a, closeQuote := JStr a\<rparr>), tr)"
  by (simp add: new_ConsoleLocaleTimestamp_def constructor_def seq_def ctor_locales_eq
      ctor_options_eq ctor_quote_one ctor_separator_eq provided_def)
     (simp add: ctor_quote_def throw_def)

end
